theory Spec2Isabelle
  imports Main
begin

section \<open>Python values seen by the chat handlers\<close>

text \<open>
  The handlers of \<^verbatim>\<open>src/app.py\<close> (Flask) and \<^verbatim>\<open>src/app/main.py\<close> (FastAPI) are
  dynamically typed: the request body, the documents returned by the retriever and the
  values stored in the mapping returned by the RAG chain may be any Python object. The
  model covers \<^verbatim>\<open>None\<close>, \<^verbatim>\<open>bool\<close>, \<^verbatim>\<open>int\<close>, \<^verbatim>\<open>str\<close>, \<^verbatim>\<open>list\<close>, \<^verbatim>\<open>dict\<close> with
  string keys (an association list read with \<open>map_of\<close>), and LangChain's
  \<^verbatim>\<open>Document\<close> (page content and metadata). Strings are lists of 8-bit characters,
  read as the code points below 256.
\<close>

datatype pyval =
    PyNone
  | PyBool bool
  | PyInt int
  | PyStr string
  | PyList "pyval list"
  | PyDict "(string \<times> pyval) list"
  | PyDocument string "(string \<times> pyval) list"

text \<open>
  Instances of \<^verbatim>\<open>Exception\<close>. Each carries the text that Python's \<^verbatim>\<open>str(e)\<close> returns
  for it, which \<open>str_exn\<close> reads: for a \<^verbatim>\<open>KeyError\<close> that text is the \<^verbatim>\<open>repr\<close> of the
  key, quotes included.
\<close>

datatype exn =
    AttributeError string
  | TypeError string
  | KeyError string
  | OtherException string

fun str_exn :: "exn \<Rightarrow> string" where
  "str_exn (AttributeError m) = m"
| "str_exn (TypeError m) = m"
| "str_exn (KeyError m) = m"
| "str_exn (OtherException m) = m"

text \<open>Truth value testing, as \<^verbatim>\<open>not x\<close> and \<^verbatim>\<open>x or y\<close> use it.\<close>

fun truthy :: "pyval \<Rightarrow> bool" where
  "truthy PyNone = False"
| "truthy (PyBool b) = b"
| "truthy (PyInt n) = (n \<noteq> 0)"
| "truthy (PyStr s) = (s \<noteq> [])"
| "truthy (PyList xs) = (xs \<noteq> [])"
| "truthy (PyDict kvs) = (kvs \<noteq> [])"
| "truthy (PyDocument c m) = True"

text \<open>\<^verbatim>\<open>x or y\<close>: the first operand when it is true, the second otherwise.\<close>

definition py_or :: "pyval \<Rightarrow> pyval \<Rightarrow> pyval" where
  "py_or x y = (if truthy x then x else y)"

text \<open>\<^verbatim>\<open>d.get(k)\<close> (default \<^verbatim>\<open>None\<close>) and \<^verbatim>\<open>d.get(k, default)\<close> on a dict.\<close>

definition dict_get :: "(string \<times> pyval) list \<Rightarrow> string \<Rightarrow> pyval \<Rightarrow> pyval" where
  "dict_get kvs k dflt = (case map_of kvs k of None \<Rightarrow> dflt | Some v \<Rightarrow> v)"

text \<open>\<^verbatim>\<open>d[k] = v\<close>: an existing key keeps its place, a new key goes last.\<close>

fun dict_set :: "'k \<Rightarrow> 'v \<Rightarrow> ('k \<times> 'v) list \<Rightarrow> ('k \<times> 'v) list" where
  "dict_set k v [] = [(k, v)]"
| "dict_set k v ((k', v') # kvs) =
     (if k' = k then (k, v) # kvs else (k', v') # dict_set k v kvs)"

fun type_name :: "pyval \<Rightarrow> string" where
  "type_name PyNone = ''NoneType''"
| "type_name (PyBool b) = ''bool''"
| "type_name (PyInt n) = ''int''"
| "type_name (PyStr s) = ''str''"
| "type_name (PyList xs) = ''list''"
| "type_name (PyDict kvs) = ''dict''"
| "type_name (PyDocument c m) = ''Document''"

text \<open>
  \<^verbatim>\<open>str.isspace\<close> on one character, for the code points below 256, and
  \<^verbatim>\<open>str.strip()\<close>: leading and trailing whitespace removed.
\<close>

definition isspace :: "char \<Rightarrow> bool" where
  "isspace c = (c \<in> set [CHR 0x09, CHR 0x0A, CHR 0x0B, CHR 0x0C, CHR 0x0D,
                           CHR 0x1C, CHR 0x1D, CHR 0x1E, CHR 0x1F, CHR 0x20,
                           CHR 0x85, CHR 0xA0])"

definition strip :: "string \<Rightarrow> string" where
  "strip s = rev (dropWhile isspace (rev (dropWhile isspace s)))"

text \<open>Decimal digits of a natural number, as \<^verbatim>\<open>%d\<close> prints them.\<close>

fun str_nat :: "nat \<Rightarrow> string" where
  "str_nat n = (if n < 10 then [char_of (48 + n)]
                else str_nat (n div 10) @ [char_of (48 + n mod 10)])"

declare str_nat.simps [simp del]

text \<open>
  \<^verbatim>\<open>sep.join(items)\<close>: every item must be a \<^verbatim>\<open>str\<close>; the first one that is not
  raises \<^verbatim>\<open>TypeError\<close> with its index and type.
\<close>

fun join_items :: "string \<Rightarrow> nat \<Rightarrow> pyval list \<Rightarrow> exn + string" where
  "join_items sep i [] = Inr []"
| "join_items sep i (PyStr s # rest) =
     (case join_items sep (Suc i) rest of
        Inl e \<Rightarrow> Inl e
      | Inr t \<Rightarrow> Inr (if rest = [] then s else s @ sep @ t))"
| "join_items sep i (v # rest) =
     Inl (TypeError (''sequence item '' @ str_nat i @ '': expected str instance, ''
                     @ type_name v @ '' found''))"

definition py_join :: "string \<Rightarrow> pyval list \<Rightarrow> exn + string" where
  "py_join sep items = join_items sep 0 items"

text \<open>
  Flask's \<^verbatim>\<open>jsonify\<close>: the JSON provider serialises \<^verbatim>\<open>None\<close>, booleans, numbers,
  strings, lists and dicts, and raises \<^verbatim>\<open>TypeError\<close> on a \<^verbatim>\<open>Document\<close>.
\<close>

fun json_serializable :: "pyval \<Rightarrow> bool" where
  "json_serializable PyNone = True"
| "json_serializable (PyBool b) = True"
| "json_serializable (PyInt n) = True"
| "json_serializable (PyStr s) = True"
| "json_serializable (PyList xs) = list_all json_serializable xs"
| "json_serializable (PyDict kvs) = list_all json_serializable (map snd kvs)"
| "json_serializable (PyDocument c m) = False"

definition jsonify :: "pyval \<Rightarrow> exn + pyval" where
  "jsonify v = (if json_serializable v then Inr v
                else Inl (TypeError ''Object of type Document is not JSON serializable''))"

text \<open>An attribute looked up on an object that does not have it.\<close>

definition no_attribute :: "pyval \<Rightarrow> string \<Rightarrow> exn" where
  "no_attribute v a =
     AttributeError ([CHR 0x27] @ type_name v @ [CHR 0x27] @ '' object has no attribute ''
                     @ [CHR 0x27] @ a @ [CHR 0x27])"

section \<open>Collaborators: retriever, generator and RAG chain\<close>

text \<open>
  The vector-store retriever, the combine-documents chain (the prompt and the Groq chat
  model) and the RAG chain are external services. Each is a function of the calls made
  so far (the trace) and of its argument, returning a value or raising; the trace
  records every call in order, so that call counts can be read off it.
\<close>

datatype call =
    Retrieve string
  | Invoke pyval
  | Generate pyval

type_synonym trace = "call list"

type_synonym retriever = "trace \<Rightarrow> string \<Rightarrow> exn + pyval list"

type_synonym docs_chain = "trace \<Rightarrow> pyval \<Rightarrow> exn + pyval"

text \<open>
  What \<^verbatim>\<open>rag_chain.invoke\<close> returns. The handler tests \<^verbatim>\<open>isinstance(response_obj, dict)\<close>:
  the mappings of the specification are Python dicts. It uses any other object only
  through \<^verbatim>\<open>str(response_obj)\<close>, so an object that is not a dict is represented by
  that string (for a plain \<^verbatim>\<open>str\<close>, the string itself; for \<^verbatim>\<open>None\<close>, \<^verbatim>\<open>"None"\<close>).
\<close>

datatype response_obj =
    Dict "(string \<times> pyval) list"
  | NonDict string

text \<open>
  A runnable maps the trace at its invocation and its input to its outcome and the calls
  it made itself while running.
\<close>

type_synonym runnable = "trace \<Rightarrow> pyval \<Rightarrow> (exn + response_obj) \<times> call list"

definition get_relevant_documents :: "retriever \<Rightarrow> string \<Rightarrow> trace \<Rightarrow> (exn + pyval list) \<times> trace" where
  "get_relevant_documents r query tr = (r tr query, tr @ [Retrieve query])"

definition invoke :: "runnable \<Rightarrow> pyval \<Rightarrow> trace \<Rightarrow> (exn + response_obj) \<times> trace" where
  "invoke rc x tr = (case rc (tr @ [Invoke x]) x of (res, nested) \<Rightarrow> (res, tr @ [Invoke x] @ nested))"

text \<open>
  LangChain's \<^verbatim>\<open>create_retrieval_chain(retriever, combine_docs_chain)\<close>, as its
  documentation states it: the retriever is called with \<^verbatim>\<open>x["input"]\<close>, the documents
  are stored under \<^verbatim>\<open>"context"\<close>, the combine-documents chain is called with that
  mapping and its result is stored under \<^verbatim>\<open>"answer"\<close>. The handlers always pass
  \<^verbatim>\<open>{"input": user_message}\<close>; the branches for any other input are not reached
  from them.
\<close>

definition create_retrieval_chain :: "retriever \<Rightarrow> docs_chain \<Rightarrow> runnable" where
  "create_retrieval_chain r c tr x =
     (case x of
        PyDict kvs \<Rightarrow>
          (case map_of kvs ''input'' of
             None \<Rightarrow> (Inl (KeyError ([CHR 0x27] @ ''input'' @ [CHR 0x27])), [])
           | Some (PyStr query) \<Rightarrow>
               (case r tr query of
                  Inl e \<Rightarrow> (Inl e, [Retrieve query])
                | Inr docs \<Rightarrow>
                    (let with_context = dict_set ''context'' (PyList docs) kvs in
                     (case c (tr @ [Retrieve query]) (PyDict with_context) of
                        Inl e \<Rightarrow> (Inl e, [Retrieve query, Generate (PyDict with_context)])
                      | Inr answer \<Rightarrow>
                          (Inr (Dict (dict_set ''answer'' answer with_context)),
                           [Retrieve query, Generate (PyDict with_context)]))))
           | Some v \<Rightarrow> (Inl (TypeError (''query must be str, not '' @ type_name v)), []))
      | _ \<Rightarrow>
          (Inl (OtherException ''The input to RunnablePassthrough.assign() must be a dict.''), []))"

subsection \<open>Module initialisation (\<^verbatim>\<open>app.py\<close> lines 33-64, \<^verbatim>\<open>app/main.py\<close> lines 33-63)\<close>

record globals =
  retriever :: "retriever option"
  rag_chain :: "runnable option"

text \<open>
  The \<^verbatim>\<open>try\<close> around the embedding and vector-store set-up leaves \<^verbatim>\<open>retriever = None\<close>
  when anything raises; the RAG chain is built only for a retriever that is there.
\<close>

definition module_init :: "exn + retriever \<Rightarrow> docs_chain \<Rightarrow> globals" where
  "module_init vector_store chain =
     (let retriever = (case vector_store of Inl e \<Rightarrow> None | Inr r \<Rightarrow> Some r) in
      \<lparr> retriever = retriever,
        rag_chain = (case retriever of
                       Some r \<Rightarrow> Some (create_retrieval_chain r chain)
                     | None \<Rightarrow> None) \<rparr>)"

section \<open>The pipeline steps shared by both handlers\<close>

text \<open>
  Step 1: \<^verbatim>\<open>retriever.get_relevant_documents(user_message)\<close> and the debug line built
  from the first three documents. Both stand in one \<^verbatim>\<open>try\<close>, so a failure of either
  is reported as a retrieval error.
\<close>

definition sample_title :: "pyval \<Rightarrow> pyval" where
  "sample_title doc =
     (case doc of
        PyDocument content metadata \<Rightarrow> dict_get metadata ''title'' (PyStr ''no-title'')
      | _ \<Rightarrow> PyStr ''no-meta'')"

definition sample_titles :: "pyval list \<Rightarrow> exn + string" where
  "sample_titles retrieved_docs = py_join ''; '' (map sample_title (take 3 retrieved_docs))"

definition retrieval_step :: "retriever option \<Rightarrow> string \<Rightarrow> trace \<Rightarrow> (exn + pyval list) \<times> trace" where
  "retrieval_step retr user_message tr =
     (case retr of
        None \<Rightarrow> (Inl (no_attribute PyNone ''get_relevant_documents''), tr)
      | Some r \<Rightarrow>
          (case get_relevant_documents r user_message tr of
             (Inl e, tr1) \<Rightarrow> (Inl e, tr1)
           | (Inr retrieved_docs, tr1) \<Rightarrow>
               (case sample_titles retrieved_docs of
                  Inl e \<Rightarrow> (Inl e, tr1)
                | Inr titles \<Rightarrow> (Inr retrieved_docs, tr1))))"

text \<open>
  Step 3: the answer is read from the chain's output. For a dict,
  \<^verbatim>\<open>get("answer") or get("response") or get("output") or ""\<close>; otherwise \<^verbatim>\<open>str\<close>.
\<close>

definition extract_answer :: "response_obj \<Rightarrow> pyval" where
  "extract_answer response_obj =
     (case response_obj of
        Dict kvs \<Rightarrow>
          py_or (dict_get kvs ''answer'' PyNone)
            (py_or (dict_get kvs ''response'' PyNone)
               (py_or (dict_get kvs ''output'' PyNone) (PyStr [])))
      | NonDict s \<Rightarrow> PyStr s)"

text \<open>The echo used when the extracted answer is false (\<^verbatim>\<open>if not answer\<close>).\<close>

definition fallback :: "string \<Rightarrow> string" where
  "fallback user_message = ''(No answer generated) You asked: '' @ user_message"

definition answer_or_fallback :: "string \<Rightarrow> pyval \<Rightarrow> pyval" where
  "answer_or_fallback user_message answer =
     (if \<not> truthy answer then PyStr (fallback user_message) else answer)"

section \<open>The Flask handler: \<^verbatim>\<open>chat\<close> of \<^verbatim>\<open>src/app.py\<close>\<close>

text \<open>
  A Flask view returns the pair of a JSON response and a status code. The request is
  given by what \<^verbatim>\<open>request.get_json(force=True)\<close> does on it: the parsed body, or the
  exception raised for a body that is not JSON.
\<close>

type_synonym flask_response = "pyval \<times> nat"

definition json_response :: "pyval \<Rightarrow> nat \<Rightarrow> exn + flask_response" where
  "json_response d status_code = (case jsonify d of Inl e \<Rightarrow> Inl e | Inr j \<Rightarrow> Inr (j, status_code))"

definition error_body :: "string \<Rightarrow> pyval" where
  "error_body msg = PyDict [(''error'', PyStr msg)]"

definition get_message :: "pyval \<Rightarrow> exn + pyval" where
  "get_message data =
     (case data of
        PyDict kvs \<Rightarrow> Inr (dict_get kvs ''message'' (PyStr []))
      | _ \<Rightarrow> Inl (no_attribute data ''get''))"

definition py_strip :: "pyval \<Rightarrow> exn + string" where
  "py_strip v = (case v of PyStr s \<Rightarrow> Inr (strip s) | _ \<Rightarrow> Inl (no_attribute v ''strip''))"

text \<open>The body of the outer \<^verbatim>\<open>try\<close> (lines 88-127).\<close>

definition chat_try :: "globals \<Rightarrow> runnable \<Rightarrow> exn + pyval \<Rightarrow> trace \<Rightarrow> (exn + flask_response) \<times> trace" where
  "chat_try g rc get_json tr =
     (case get_json of
        Inl e \<Rightarrow> (Inl e, tr)
      | Inr data \<Rightarrow>
          (case get_message data of
             Inl e \<Rightarrow> (Inl e, tr)
           | Inr v \<Rightarrow>
               (case py_strip v of
                  Inl e \<Rightarrow> (Inl e, tr)
                | Inr user_message \<Rightarrow>
                    if user_message = [] then (json_response (error_body ''empty message'') 400, tr)
                    else
                      (case retrieval_step (retriever g) user_message tr of
                         (Inl e, tr1) \<Rightarrow>
                           (json_response (error_body (''retrieval error: '' @ str_exn e)) 500, tr1)
                       | (Inr retrieved_docs, tr1) \<Rightarrow>
                           (case invoke rc (PyDict [(''input'', PyStr user_message)]) tr1 of
                              (Inl e, tr2) \<Rightarrow>
                                (json_response (error_body (''chain invocation error: '' @ str_exn e)) 500, tr2)
                            | (Inr response_obj, tr2) \<Rightarrow>
                                (json_response
                                   (PyDict [(''response'',
                                             answer_or_fallback user_message (extract_answer response_obj))])
                                   200, tr2))))))"

text \<open>
  The view: the check of \<^verbatim>\<open>rag_chain\<close>, then the \<^verbatim>\<open>try\<close> whose \<^verbatim>\<open>except Exception\<close>
  answers with a fixed message. \<open>Inl\<close> would be an exception leaving the view.
\<close>

definition chat :: "globals \<Rightarrow> exn + pyval \<Rightarrow> trace \<Rightarrow> (exn + flask_response) \<times> trace" where
  "chat g get_json tr =
     (case rag_chain g of
        None \<Rightarrow> (json_response (error_body ''retrieval chain not initialized'') 500, tr)
      | Some rc \<Rightarrow>
          (case chat_try g rc get_json tr of
             (Inl e, tr') \<Rightarrow> (json_response (error_body ''internal server error'') 500, tr')
           | (Inr response, tr') \<Rightarrow> (Inr response, tr')))"

section \<open>The FastAPI handler: \<^verbatim>\<open>chat\<close> of \<^verbatim>\<open>src/app/main.py\<close>\<close>

text \<open>
  The payload is a validated \<^verbatim>\<open>ChatRequest\<close>, so its message is a \<^verbatim>\<open>str\<close>. The handler
  returns the response mapping or raises \<^verbatim>\<open>HTTPException(status_code, detail)\<close>, which
  FastAPI turns into the response of that status.
\<close>

record ChatRequest =
  message :: string

datatype http_exception = HTTPException nat string

definition main_chat :: "globals \<Rightarrow> ChatRequest \<Rightarrow> trace \<Rightarrow> (http_exception + pyval) \<times> trace" where
  "main_chat g payload tr =
     (case rag_chain g of
        None \<Rightarrow> (Inl (HTTPException 500 ''Retrieval chain not initialized''), tr)
      | Some rc \<Rightarrow>
          (let user_message = strip (message payload) in
           if user_message = [] then (Inl (HTTPException 400 ''empty message''), tr)
           else
             (case retrieval_step (retriever g) user_message tr of
                (Inl e, tr1) \<Rightarrow> (Inl (HTTPException 500 (''retrieval error: '' @ str_exn e)), tr1)
              | (Inr retrieved_docs, tr1) \<Rightarrow>
                  (case invoke rc (PyDict [(''input'', PyStr user_message)]) tr1 of
                     (Inl e, tr2) \<Rightarrow>
                       (Inl (HTTPException 500 (''chain invocation error: '' @ str_exn e)), tr2)
                   | (Inr response_obj, tr2) \<Rightarrow>
                       (Inr (PyDict [(''response'',
                                      answer_or_fallback user_message (extract_answer response_obj))]),
                        tr2)))))"

section \<open>The ingestion script \<^verbatim>\<open>src/store.py\<close>\<close>

text \<open>
  The Pinecone account is the list of its indexes by name. An index has the
  configuration it was created with and its vectors, each stored under an id with the
  text chunk it embeds.
\<close>

record pinecone_index =
  dimension :: nat
  metric :: string
  cloud :: string
  region :: string
  vectors :: "(string \<times> string) list"

type_synonym pinecone = "(string \<times> pinecone_index) list"

definition index_name :: string where
  "index_name = ''medibot''"

text \<open>\<^verbatim>\<open>pc.list_indexes().names()\<close>.\<close>

definition list_index_names :: "pinecone \<Rightarrow> string list" where
  "list_index_names pc = map fst pc"

text \<open>\<^verbatim>\<open>pc.create_index\<close>: a new, empty index; the service refuses a name that is taken.\<close>

definition create_index :: "string \<Rightarrow> nat \<Rightarrow> string \<Rightarrow> string \<Rightarrow> string \<Rightarrow> pinecone \<Rightarrow> exn + pinecone" where
  "create_index name dim metr cl reg pc =
     (if name \<in> set (list_index_names pc)
      then Inl (OtherException ''Resource already exists'')
      else Inr (pc @ [(name, \<lparr> dimension = dim, metric = metr, cloud = cl, region = reg,
                               vectors = [] \<rparr>)]))"

text \<open>
  \<^verbatim>\<open>PineconeVectorStore.from_documents\<close>: every chunk is embedded and upserted into the
  named index under the id generated for it; the index must exist.
\<close>

fun upsert_all :: "(string \<times> string) list \<Rightarrow> (string \<times> string) list \<Rightarrow> (string \<times> string) list" where
  "upsert_all [] vs = vs"
| "upsert_all ((vid, chunk) # rest) vs = upsert_all rest (dict_set vid chunk vs)"

definition from_documents :: "(string \<times> string) list \<Rightarrow> string \<Rightarrow> pinecone \<Rightarrow> exn + pinecone" where
  "from_documents documents name pc =
     (case map_of pc name of
        None \<Rightarrow> Inl (OtherException ''Resource not found'')
      | Some idx \<Rightarrow> Inr (dict_set name (idx\<lparr> vectors := upsert_all documents (vectors idx) \<rparr>) pc))"

text \<open>
  Lines 25-36: the index is created only when its name is not listed; otherwise a line
  is printed. The result is the account and the lines printed.
\<close>

definition skip_message :: string where
  "skip_message =
     ''Index '' @ [CHR 0x27] @ index_name @ [CHR 0x27] @ '' already exists. Skipping creation.''"

definition build_index :: "pinecone \<Rightarrow> (exn + pinecone) \<times> string list" where
  "build_index pc =
     (if index_name \<notin> set (list_index_names pc)
      then (create_index index_name 384 ''cosine'' ''aws'' ''us-east-1'' pc, [])
      else (Inr pc, [skip_message]))"

text \<open>The whole script: the build step, then the upload of the chunks (lines 39-43).\<close>

definition store :: "(string \<times> string) list \<Rightarrow> pinecone \<Rightarrow> (exn + pinecone) \<times> string list" where
  "store text_chunks pc =
     (case build_index pc of
        (Inl e, out) \<Rightarrow> (Inl e, out)
      | (Inr pc1, out) \<Rightarrow> (from_documents text_chunks index_name pc1, out))"

section \<open>The extraction order in the specification's words\<close>

text \<open>
  The specification probes keys in a fixed order and uses the first value that is
  present and non-empty. \<open>first_usable\<close> states this directly, for comparison with
  \<open>extract_answer\<close>; "non-empty" is Python's truth value, which for a string is
  non-emptiness.
\<close>

fun first_usable :: "string list \<Rightarrow> (string \<times> pyval) list \<Rightarrow> pyval option" where
  "first_usable [] kvs = None"
| "first_usable (k # ks) kvs =
     (case map_of kvs k of
        Some v \<Rightarrow> if truthy v then Some v else first_usable ks kvs
      | None \<Rightarrow> first_usable ks kvs)"

section \<open>Call counts and test doubles\<close>

text \<open>The number of \<^verbatim>\<open>rag_chain.invoke\<close> calls recorded in a trace.\<close>

definition invocations :: "trace \<Rightarrow> nat" where
  "invocations tr = length (filter (\<lambda>c. case c of Invoke x \<Rightarrow> True | _ \<Rightarrow> False) tr)"

text \<open>
  Doubles for the collaborators, as the specification's testable properties use them: a
  retriever that returns given documents or raises, a RAG chain that returns a given
  output or raises, a combine-documents chain that returns a given answer.
\<close>

definition book_page :: pyval where
  "book_page = PyDocument ''Fever is a rise in body temperature.''
                 [(''title'', PyStr ''Medical Book''), (''page'', PyInt 12)]"

definition retriever_returns :: "pyval list \<Rightarrow> retriever" where
  "retriever_returns docs = (\<lambda>tr query. Inr docs)"

definition retriever_raises :: "exn \<Rightarrow> retriever" where
  "retriever_raises e = (\<lambda>tr query. Inl e)"

definition chain_returns :: "response_obj \<Rightarrow> runnable" where
  "chain_returns out = (\<lambda>tr x. (Inr out, []))"

definition chain_raises :: "exn \<Rightarrow> runnable" where
  "chain_raises e = (\<lambda>tr x. (Inl e, []))"

definition llm_returns :: "pyval \<Rightarrow> docs_chain" where
  "llm_returns a = (\<lambda>tr x. Inr a)"





section \<open>Basic facts\<close>

lemma json_response_error_body [simp]:
  "json_response (error_body m) s = Inr (error_body m, s)"
  by (simp add: json_response_def error_body_def jsonify_def)

lemma json_response_200:
  "json_response (PyDict [(''response'', a)]) 200 =
     (if json_serializable a then Inr (PyDict [(''response'', a)], 200)
      else Inl (TypeError ''Object of type Document is not JSON serializable''))"
  by (simp add: json_response_def jsonify_def)

lemma fallback_nonempty [simp]: "fallback q \<noteq> []"
  by (simp add: fallback_def)

lemma truthy_answer_or_fallback [simp]: "truthy (answer_or_fallback q a)"
  by (simp add: answer_or_fallback_def)

lemma truthy_not_empty_str: "truthy v \<Longrightarrow> v \<noteq> PyStr []"
  by auto

lemma dict_get_present: "map_of kvs k = Some v \<Longrightarrow> dict_get kvs k d = v"
  by (simp add: dict_get_def)

lemma get_message_dict:
  "get_message (PyDict kvs) = Inr (dict_get kvs ''message'' (PyStr []))"
  by (simp add: get_message_def)

lemma py_strip_str: "py_strip (PyStr m) = Inr (strip m)"
  by (simp add: py_strip_def)

lemma strip_examples:
  "strip '' fever? '' = ''fever?''" "strip ''   '' = []" "strip ''fever?'' = ''fever?''"
  by (simp_all add: strip_def isspace_def)

lemma invocations_append [simp]: "invocations (xs @ ys) = invocations xs + invocations ys"
  by (simp add: invocations_def)

lemma invocations_simps [simp]:
  "invocations [] = 0"
  "invocations (Invoke x # tr) = Suc (invocations tr)"
  "invocations (Retrieve q # tr) = invocations tr"
  "invocations (Generate y # tr) = invocations tr"
  by (simp_all add: invocations_def)

subsection \<open>The retrieval step\<close>

lemma retrieval_step_ok:
  assumes "retr = Some r" and "r tr q = Inr docs" and "sample_titles docs = Inr t"
  shows "retrieval_step retr q tr = (Inr docs, tr @ [Retrieve q])"
  using assms by (simp add: retrieval_step_def get_relevant_documents_def)

lemma retrieval_step_raises:
  assumes "retr = Some r" and "r tr q = Inl e"
  shows "retrieval_step retr q tr = (Inl e, tr @ [Retrieve q])"
  using assms by (simp add: retrieval_step_def get_relevant_documents_def)

lemma sample_titles_book_page: "sample_titles [book_page] = Inr ''Medical Book''"
  by (simp add: sample_titles_def py_join_def sample_title_def book_page_def dict_get_def)

lemma book_page_facts: "truthy book_page" "\<not> json_serializable book_page"
  by (simp_all add: book_page_def)

lemma retrieval_step_book_page:
  "retrieval_step (Some (retriever_returns [book_page])) q tr = (Inr [book_page], tr @ [Retrieve q])"
  by (rule retrieval_step_ok [where t = "''Medical Book''"])
     (simp_all add: retriever_returns_def sample_titles_book_page)

subsection \<open>The handlers once the RAG chain is there\<close>

text \<open>The Flask view on a body that parses to a dict whose message is a \<^verbatim>\<open>str\<close>.\<close>

lemma chat_str_message:
  assumes "rag_chain g = Some rc" and "dict_get kvs ''message'' (PyStr []) = PyStr m"
  shows "chat g (Inr (PyDict kvs)) tr =
     (if strip m = [] then (Inr (error_body ''empty message'', 400), tr)
      else
        (case retrieval_step (retriever g) (strip m) tr of
           (Inl e, tr1) \<Rightarrow> (Inr (error_body (''retrieval error: '' @ str_exn e), 500), tr1)
         | (Inr retrieved_docs, tr1) \<Rightarrow>
             (case invoke rc (PyDict [(''input'', PyStr (strip m))]) tr1 of
                (Inl e, tr2) \<Rightarrow>
                  (Inr (error_body (''chain invocation error: '' @ str_exn e), 500), tr2)
              | (Inr response_obj, tr2) \<Rightarrow>
                  (let a = answer_or_fallback (strip m) (extract_answer response_obj) in
                   if json_serializable a then (Inr (PyDict [(''response'', a)], 200), tr2)
                   else (Inr (error_body ''internal server error'', 500), tr2)))))"
  using assms
  by (simp add: chat_def chat_try_def get_message_dict py_strip_str json_response_200 Let_def
           split: prod.splits sum.splits)

lemma main_chat_initialised:
  assumes "rag_chain g = Some rc"
  shows "main_chat g p tr =
     (if strip (message p) = [] then (Inl (HTTPException 400 ''empty message''), tr)
      else
        (case retrieval_step (retriever g) (strip (message p)) tr of
           (Inl e, tr1) \<Rightarrow> (Inl (HTTPException 500 (''retrieval error: '' @ str_exn e)), tr1)
         | (Inr retrieved_docs, tr1) \<Rightarrow>
             (case invoke rc (PyDict [(''input'', PyStr (strip (message p)))]) tr1 of
                (Inl e, tr2) \<Rightarrow>
                  (Inl (HTTPException 500 (''chain invocation error: '' @ str_exn e)), tr2)
              | (Inr response_obj, tr2) \<Rightarrow>
                  (Inr (PyDict [(''response'',
                     answer_or_fallback (strip (message p)) (extract_answer response_obj))]), tr2))))"
  using assms by (simp add: main_chat_def Let_def)

section \<open>Answer extraction\<close>

text \<open>
  C2. For a mapping, the extractor probes \<^verbatim>\<open>answer\<close>, then \<^verbatim>\<open>response\<close>, then
  \<^verbatim>\<open>output\<close>, and returns the first value that is present and non-empty (the empty
  string when there is none): a non-empty value under \<^verbatim>\<open>answer\<close> wins whatever the
  other keys hold, \<^verbatim>\<open>response\<close> wins over \<^verbatim>\<open>output\<close> when \<^verbatim>\<open>answer\<close> is absent or
  empty. For an output that is not a mapping, the extractor returns its string
  representation.
\<close>

theorem extract_answer_priority:
  "extract_answer (Dict kvs) =
     (case first_usable [''answer'', ''response'', ''output''] kvs of
        Some v \<Rightarrow> v | None \<Rightarrow> PyStr [])
   \<and> (\<forall>a. map_of kvs ''answer'' = Some a \<and> truthy a \<longrightarrow> extract_answer (Dict kvs) = a)
   \<and> (\<forall>b. \<not> truthy (dict_get kvs ''answer'' PyNone) \<and> map_of kvs ''response'' = Some b \<and> truthy b
          \<longrightarrow> extract_answer (Dict kvs) = b)
   \<and> (\<forall>c. \<not> truthy (dict_get kvs ''answer'' PyNone) \<and> \<not> truthy (dict_get kvs ''response'' PyNone)
          \<and> map_of kvs ''output'' = Some c \<and> truthy c
          \<longrightarrow> extract_answer (Dict kvs) = c)
   \<and> extract_answer (NonDict s) = PyStr s"
  by (auto simp: extract_answer_def py_or_def dict_get_def split: option.splits)

theorem extract_answer_priority_witness:
  "extract_answer (Dict [(''output'', PyStr ''O''), (''response'', PyStr ''R''),
                         (''answer'', PyStr ''A'')]) = PyStr ''A''
   \<and> extract_answer (Dict [(''output'', PyStr ''O''), (''answer'', PyStr []),
                           (''response'', PyStr ''R'')]) = PyStr ''R''
   \<and> extract_answer (Dict [(''output'', PyStr ''O'')]) = PyStr ''O''
   \<and> extract_answer (NonDict ''plain'') = PyStr ''plain''"
  using extract_answer_priority
          [of "[(''output'', PyStr ''O''), (''response'', PyStr ''R''), (''answer'', PyStr ''A'')]"
              "''plain''"]
        extract_answer_priority
          [of "[(''output'', PyStr ''O''), (''answer'', PyStr []), (''response'', PyStr ''R'')]"
              "''plain''"]
        extract_answer_priority [of "[(''output'', PyStr ''O'')]" "''plain''"]
  by (simp add: dict_get_def)

section \<open>The response is never empty\<close>

text \<open>
  C1. For every chat request whose trimmed message is non-empty and that reaches the
  answer-extraction step (the retrieval step and the chain invocation returned), the
  answer put under \<^verbatim>\<open>response\<close> is the extracted answer or, when that is empty, the
  non-empty fallback string; it is never the empty string. The FastAPI handler returns
  it; the Flask view returns it with status 200 (or, for an answer that
  \<^verbatim>\<open>jsonify\<close> cannot serialise, the internal-error response, which has no
  \<^verbatim>\<open>response\<close> at all).
\<close>

theorem response_never_empty:
  assumes init: "rag_chain g = Some rc"
    and msg: "strip m \<noteq> []"
    and retr: "retrieval_step (retriever g) (strip m) tr = (Inr docs, tr1)"
    and gen: "invoke rc (PyDict [(''input'', PyStr (strip m))]) tr1 = (Inr out, tr2)"
  shows "\<exists>a. a = answer_or_fallback (strip m) (extract_answer out)
           \<and> truthy a \<and> a \<noteq> PyStr []
           \<and> (\<not> truthy (extract_answer out) \<longrightarrow>
                a = PyStr (''(No answer generated) You asked: '' @ strip m))
           \<and> main_chat g \<lparr>message = m\<rparr> tr = (Inr (PyDict [(''response'', a)]), tr2)
           \<and> (\<forall>kvs. map_of kvs ''message'' = Some (PyStr m) \<longrightarrow>
                 chat g (Inr (PyDict kvs)) tr =
                   (if json_serializable a then Inr (PyDict [(''response'', a)], 200)
                    else Inr (error_body ''internal server error'', 500), tr2))"
proof -
  let ?a = "answer_or_fallback (strip m) (extract_answer out)"
  have t: "truthy ?a" by simp
  then have ne: "?a \<noteq> PyStr []" by (rule truthy_not_empty_str)
  have fb: "\<not> truthy (extract_answer out) \<longrightarrow>
              ?a = PyStr (''(No answer generated) You asked: '' @ strip m)"
    by (simp add: answer_or_fallback_def fallback_def)
  have fastapi: "main_chat g \<lparr>message = m\<rparr> tr = (Inr (PyDict [(''response'', ?a)]), tr2)"
    using msg retr gen by (simp add: main_chat_initialised [OF init])
  have flask: "\<forall>kvs. map_of kvs ''message'' = Some (PyStr m) \<longrightarrow>
                 chat g (Inr (PyDict kvs)) tr =
                   (if json_serializable ?a then Inr (PyDict [(''response'', ?a)], 200)
                    else Inr (error_body ''internal server error'', 500), tr2)"
    using msg retr gen by (simp add: chat_str_message [OF init] dict_get_present Let_def)
  from t ne fb fastapi flask show ?thesis by blast
qed

theorem response_never_empty_witness:
  "strip '' fever? '' \<noteq> []
   \<and> main_chat \<lparr>retriever = Some (retriever_returns [book_page]),
                 rag_chain = Some (chain_returns (Dict [(''answer'', PyStr [])]))\<rparr>
        \<lparr>message = '' fever? ''\<rparr> []
      = (Inr (PyDict [(''response'', PyStr ''(No answer generated) You asked: fever?'')]),
         [Retrieve ''fever?'', Invoke (PyDict [(''input'', PyStr ''fever?'')])])
   \<and> chat \<lparr>retriever = Some (retriever_returns [book_page]),
             rag_chain = Some (chain_returns (Dict [(''answer'', PyStr [])]))\<rparr>
        (Inr (PyDict [(''message'', PyStr '' fever? '')])) []
      = (Inr (PyDict [(''response'', PyStr ''(No answer generated) You asked: fever?'')], 200),
         [Retrieve ''fever?'', Invoke (PyDict [(''input'', PyStr ''fever?'')])])"
proof -
  let ?rc = "chain_returns (Dict [(''answer'', PyStr [])])"
  let ?g = "\<lparr>retriever = Some (retriever_returns [book_page]), rag_chain = Some ?rc\<rparr>"
  let ?x = "PyDict [(''input'', PyStr (strip '' fever? ''))]"
  have h1: "rag_chain ?g = Some ?rc" by simp
  have h2: "strip '' fever? '' \<noteq> []" by (simp add: strip_examples)
  have h3: "retrieval_step (retriever ?g) (strip '' fever? '') []
              = (Inr [book_page], [Retrieve (strip '' fever? '')])"
    using retrieval_step_book_page [of "strip '' fever? ''" "[]"] by simp
  have h4: "invoke ?rc ?x [Retrieve (strip '' fever? '')]
              = (Inr (Dict [(''answer'', PyStr [])]), [Retrieve (strip '' fever? ''), Invoke ?x])"
    by (simp add: invoke_def chain_returns_def)
  from response_never_empty [OF h1 h2 h3 h4] h2 show ?thesis
    by (simp add: strip_examples extract_answer_def py_or_def dict_get_def
                  answer_or_fallback_def fallback_def)
qed

section \<open>The fallback echoes the trimmed message\<close>

text \<open>
  C3, as the claim states it, fails: the fallback template is applied to
  \<^verbatim>\<open>user_message\<close>, which is the message after \<^verbatim>\<open>strip()\<close>, not to the raw message
  as submitted. For the raw message \<^verbatim>\<open>" fever? "\<close> and a chain that returns the empty
  mapping, both handlers answer \<^verbatim>\<open>"(No answer generated) You asked: fever?"\<close>, which
  is not the template applied to the raw message.
\<close>

theorem fallback_raw_message_counterexample:
  "main_chat \<lparr>retriever = Some (retriever_returns [book_page]),
               rag_chain = Some (chain_returns (Dict []))\<rparr>
        \<lparr>message = '' fever? ''\<rparr> []
      = (Inr (PyDict [(''response'', PyStr ''(No answer generated) You asked: fever?'')]),
         [Retrieve ''fever?'', Invoke (PyDict [(''input'', PyStr ''fever?'')])])
   \<and> chat \<lparr>retriever = Some (retriever_returns [book_page]),
             rag_chain = Some (chain_returns (Dict []))\<rparr>
        (Inr (PyDict [(''message'', PyStr '' fever? '')])) []
      = (Inr (PyDict [(''response'', PyStr ''(No answer generated) You asked: fever?'')], 200),
         [Retrieve ''fever?'', Invoke (PyDict [(''input'', PyStr ''fever?'')])])
   \<and> ''(No answer generated) You asked: fever?''
       \<noteq> ''(No answer generated) You asked: '' @ '' fever? ''"
  by (simp add: main_chat_def chat_def chat_try_def get_message_def py_strip_def dict_get_def
                strip_examples retrieval_step_book_page invoke_def chain_returns_def
                extract_answer_def py_or_def answer_or_fallback_def fallback_def
                json_response_def jsonify_def Let_def)

text \<open>
  C3, amended. For every chat request that reaches the chain invocation and on which
  the chain returns the empty mapping \<^verbatim>\<open>{}\<close> or the empty string \<^verbatim>\<open>""\<close>, the extracted
  answer is empty and the response is the fallback template
  \<^verbatim>\<open>"(No answer generated) You asked: <query>"\<close> applied to the trimmed message.
\<close>

theorem fallback_on_empty_output:
  assumes init: "rag_chain g = Some rc"
    and msg: "strip m \<noteq> []"
    and retr: "retrieval_step (retriever g) (strip m) tr = (Inr docs, tr1)"
    and gen: "invoke rc (PyDict [(''input'', PyStr (strip m))]) tr1 = (Inr out, tr2)"
    and empty: "out = Dict [] \<or> out = NonDict []"
  shows "extract_answer out = PyStr []
         \<and> main_chat g \<lparr>message = m\<rparr> tr
             = (Inr (PyDict [(''response'',
                              PyStr (''(No answer generated) You asked: '' @ strip m))]), tr2)
         \<and> (\<forall>kvs. map_of kvs ''message'' = Some (PyStr m) \<longrightarrow>
               chat g (Inr (PyDict kvs)) tr
                 = (Inr (PyDict [(''response'',
                                  PyStr (''(No answer generated) You asked: '' @ strip m))], 200),
                    tr2))"
proof -
  from empty have e: "extract_answer out = PyStr []"
    by (auto simp: extract_answer_def py_or_def dict_get_def)
  then have a: "answer_or_fallback (strip m) (extract_answer out)
                  = PyStr (''(No answer generated) You asked: '' @ strip m)"
    by (simp add: answer_or_fallback_def fallback_def)
  show ?thesis
    using e a msg retr gen
    by (simp add: main_chat_initialised [OF init] chat_str_message [OF init] dict_get_present)
qed

theorem fallback_on_empty_output_witness:
  "strip '' fever? '' \<noteq> []
   \<and> extract_answer (NonDict []) = PyStr []
   \<and> main_chat \<lparr>retriever = Some (retriever_returns [book_page]),
                 rag_chain = Some (chain_returns (NonDict []))\<rparr>
        \<lparr>message = '' fever? ''\<rparr> []
      = (Inr (PyDict [(''response'', PyStr ''(No answer generated) You asked: fever?'')]),
         [Retrieve ''fever?'', Invoke (PyDict [(''input'', PyStr ''fever?'')])])
   \<and> chat \<lparr>retriever = Some (retriever_returns [book_page]),
             rag_chain = Some (chain_returns (NonDict []))\<rparr>
        (Inr (PyDict [(''message'', PyStr '' fever? '')])) []
      = (Inr (PyDict [(''response'', PyStr ''(No answer generated) You asked: fever?'')], 200),
         [Retrieve ''fever?'', Invoke (PyDict [(''input'', PyStr ''fever?'')])])"
proof -
  let ?rc = "chain_returns (NonDict [])"
  let ?g = "\<lparr>retriever = Some (retriever_returns [book_page]), rag_chain = Some ?rc\<rparr>"
  let ?x = "PyDict [(''input'', PyStr (strip '' fever? ''))]"
  have h1: "rag_chain ?g = Some ?rc" by simp
  have h2: "strip '' fever? '' \<noteq> []" by (simp add: strip_examples)
  have h3: "retrieval_step (retriever ?g) (strip '' fever? '') []
              = (Inr [book_page], [Retrieve (strip '' fever? '')])"
    using retrieval_step_book_page [of "strip '' fever? ''" "[]"] by simp
  have h4: "invoke ?rc ?x [Retrieve (strip '' fever? '')]
              = (Inr (NonDict []), [Retrieve (strip '' fever? ''), Invoke ?x])"
    by (simp add: invoke_def chain_returns_def)
  have h5: "NonDict [] = Dict [] \<or> NonDict [] = NonDict []" by simp
  from fallback_on_empty_output [OF h1 h2 h3 h4 h5] h2 show ?thesis
    by (simp add: strip_examples)
qed

section \<open>Rejections and failures\<close>

text \<open>
  C4, as the claim states it, fails: the check of \<^verbatim>\<open>rag_chain\<close> comes before the check
  of the message, so when the module initialisation failed the whitespace-only message
  \<^verbatim>\<open>"   "\<close> is answered with status 500, not 400.
\<close>

theorem empty_message_counterexample:
  "strip ''   '' = []
   \<and> chat (module_init (Inl (OtherException ''index not found'')) (llm_returns (PyStr ''ok'')))
        (Inr (PyDict [(''message'', PyStr ''   '')])) []
     = (Inr (PyDict [(''error'', PyStr ''retrieval chain not initialized'')], 500), [])
   \<and> main_chat (module_init (Inl (OtherException ''index not found'')) (llm_returns (PyStr ''ok'')))
        \<lparr>message = ''   ''\<rparr> []
     = (Inl (HTTPException 500 ''Retrieval chain not initialized''), [])"
  by (simp add: strip_examples chat_def main_chat_def module_init_def error_body_def [symmetric])

text \<open>
  C4, amended. For every chat request whose message trims to the empty string, neither
  the retriever nor the generator is invoked (the trace is unchanged), and when the RAG
  chain is initialised the handler returns the 400 rejection \<^verbatim>\<open>empty message\<close>. In
  the Flask view a missing \<^verbatim>\<open>message\<close> key counts as the empty string.
\<close>

theorem empty_message_rejected:
  assumes "strip m = []"
  shows "(rag_chain g \<noteq> None \<longrightarrow>
            main_chat g \<lparr>message = m\<rparr> tr = (Inl (HTTPException 400 ''empty message''), tr)
            \<and> (\<forall>kvs. dict_get kvs ''message'' (PyStr []) = PyStr m \<longrightarrow>
                  chat g (Inr (PyDict kvs)) tr
                    = (Inr (PyDict [(''error'', PyStr ''empty message'')], 400), tr)))
         \<and> snd (main_chat g \<lparr>message = m\<rparr> tr) = tr
         \<and> (\<forall>kvs. dict_get kvs ''message'' (PyStr []) = PyStr m \<longrightarrow>
               snd (chat g (Inr (PyDict kvs)) tr) = tr)"
proof (cases "rag_chain g")
  case None
  then show ?thesis by (simp add: chat_def main_chat_def)
next
  case (Some rc)
  then show ?thesis
    using assms
    by (simp add: chat_str_message [OF Some] main_chat_initialised [OF Some] error_body_def)
qed

theorem empty_message_rejected_witness:
  "strip ''   '' = []
   \<and> main_chat \<lparr>retriever = Some (retriever_returns [book_page]),
                 rag_chain = Some (chain_returns (NonDict ''unused''))\<rparr>
        \<lparr>message = ''   ''\<rparr> []
      = (Inl (HTTPException 400 ''empty message''), [])
   \<and> chat \<lparr>retriever = Some (retriever_returns [book_page]),
             rag_chain = Some (chain_returns (NonDict ''unused''))\<rparr>
        (Inr (PyDict [(''message'', PyStr ''   '')])) []
      = (Inr (PyDict [(''error'', PyStr ''empty message'')], 400), [])"
proof -
  have h: "strip ''   '' = []" by (simp add: strip_examples)
  from empty_message_rejected
         [OF h, of "\<lparr>retriever = Some (retriever_returns [book_page]),
                      rag_chain = Some (chain_returns (NonDict ''unused''))\<rparr>" "[]"]
       h
  show ?thesis by (simp add: dict_get_def)
qed

text \<open>
  C5. For every chat request on which the handler's retrieval call raises, the handler
  returns a 500 response whose message is \<^verbatim>\<open>retrieval error: \<close> followed by the
  exception's text, and the RAG chain is not invoked: the retrieval call is the only
  call added to the trace.
\<close>

theorem retrieval_failure:
  assumes init: "rag_chain g = Some rc"
    and retr: "retriever g = Some r"
    and msg: "strip m \<noteq> []"
    and raises: "r tr (strip m) = Inl e"
  shows "main_chat g \<lparr>message = m\<rparr> tr
           = (Inl (HTTPException 500 (''retrieval error: '' @ str_exn e)),
              tr @ [Retrieve (strip m)])
         \<and> (\<forall>kvs. map_of kvs ''message'' = Some (PyStr m) \<longrightarrow>
               chat g (Inr (PyDict kvs)) tr
                 = (Inr (PyDict [(''error'', PyStr (''retrieval error: '' @ str_exn e))], 500),
                    tr @ [Retrieve (strip m)]))
         \<and> invocations (tr @ [Retrieve (strip m)]) = invocations tr"
  using msg retrieval_step_raises [OF retr raises]
  by (simp add: main_chat_initialised [OF init] chat_str_message [OF init] dict_get_present
                error_body_def)

theorem retrieval_failure_witness:
  "strip '' fever? '' \<noteq> []
   \<and> main_chat \<lparr>retriever = Some (retriever_raises (OtherException ''index unreachable'')),
                 rag_chain = Some (chain_returns (NonDict ''unused''))\<rparr>
        \<lparr>message = '' fever? ''\<rparr> []
      = (Inl (HTTPException 500 ''retrieval error: index unreachable''), [Retrieve ''fever?''])
   \<and> chat \<lparr>retriever = Some (retriever_raises (OtherException ''index unreachable'')),
             rag_chain = Some (chain_returns (NonDict ''unused''))\<rparr>
        (Inr (PyDict [(''message'', PyStr '' fever? '')])) []
      = (Inr (PyDict [(''error'', PyStr ''retrieval error: index unreachable'')], 500),
         [Retrieve ''fever?''])"
proof -
  let ?g = "\<lparr>retriever = Some (retriever_raises (OtherException ''index unreachable'')),
             rag_chain = Some (chain_returns (NonDict ''unused''))\<rparr>"
  have h1: "rag_chain ?g = Some (chain_returns (NonDict ''unused''))" by simp
  have h2: "retriever ?g = Some (retriever_raises (OtherException ''index unreachable''))" by simp
  have h3: "strip '' fever? '' \<noteq> []" by (simp add: strip_examples)
  have h4: "retriever_raises (OtherException ''index unreachable'') [] (strip '' fever? '')
              = Inl (OtherException ''index unreachable'')"
    by (simp add: retriever_raises_def)
  from retrieval_failure [OF h1 h2 h3 h4] h3 show ?thesis
    by (simp add: strip_examples)
qed

text \<open>
  C6. For every chat request on which the RAG chain invocation raises, the handler
  returns a 500 response whose message is \<^verbatim>\<open>chain invocation error: \<close> followed by the
  exception's text, after exactly one invocation: the trace is the trace of the
  retrieval step, the one \<^verbatim>\<open>Invoke\<close> and the calls that invocation made itself. There
  is no retry.
\<close>

theorem generation_failure:
  assumes init: "rag_chain g = Some rc"
    and msg: "strip m \<noteq> []"
    and retr: "retrieval_step (retriever g) (strip m) tr = (Inr docs, tr1)"
    and raises: "rc (tr1 @ [Invoke (PyDict [(''input'', PyStr (strip m))])])
                    (PyDict [(''input'', PyStr (strip m))]) = (Inl e, nested)"
  shows "main_chat g \<lparr>message = m\<rparr> tr
           = (Inl (HTTPException 500 (''chain invocation error: '' @ str_exn e)),
              tr1 @ [Invoke (PyDict [(''input'', PyStr (strip m))])] @ nested)
         \<and> (\<forall>kvs. map_of kvs ''message'' = Some (PyStr m) \<longrightarrow>
               chat g (Inr (PyDict kvs)) tr
                 = (Inr (PyDict [(''error'', PyStr (''chain invocation error: '' @ str_exn e))],
                         500),
                    tr1 @ [Invoke (PyDict [(''input'', PyStr (strip m))])] @ nested))
         \<and> invocations (tr1 @ [Invoke (PyDict [(''input'', PyStr (strip m))])] @ nested)
             = invocations tr1 + 1 + invocations nested"
  using msg retr raises
  by (simp add: main_chat_initialised [OF init] chat_str_message [OF init] dict_get_present
                error_body_def invoke_def)

theorem generation_failure_witness:
  "strip '' fever? '' \<noteq> []
   \<and> main_chat \<lparr>retriever = Some (retriever_returns [book_page]),
                 rag_chain = Some (chain_raises (OtherException ''rate limit reached''))\<rparr>
        \<lparr>message = '' fever? ''\<rparr> []
      = (Inl (HTTPException 500 ''chain invocation error: rate limit reached''),
         [Retrieve ''fever?'', Invoke (PyDict [(''input'', PyStr ''fever?'')])])
   \<and> chat \<lparr>retriever = Some (retriever_returns [book_page]),
             rag_chain = Some (chain_raises (OtherException ''rate limit reached''))\<rparr>
        (Inr (PyDict [(''message'', PyStr '' fever? '')])) []
      = (Inr (PyDict [(''error'', PyStr ''chain invocation error: rate limit reached'')], 500),
         [Retrieve ''fever?'', Invoke (PyDict [(''input'', PyStr ''fever?'')])])
   \<and> invocations [Retrieve ''fever?'', Invoke (PyDict [(''input'', PyStr ''fever?'')])] = 1"
proof -
  let ?rc = "chain_raises (OtherException ''rate limit reached'')"
  let ?g = "\<lparr>retriever = Some (retriever_returns [book_page]), rag_chain = Some ?rc\<rparr>"
  let ?x = "PyDict [(''input'', PyStr (strip '' fever? ''))]"
  have h1: "rag_chain ?g = Some ?rc" by simp
  have h2: "strip '' fever? '' \<noteq> []" by (simp add: strip_examples)
  have h3: "retrieval_step (retriever ?g) (strip '' fever? '') []
              = (Inr [book_page], [Retrieve (strip '' fever? '')])"
    using retrieval_step_book_page [of "strip '' fever? ''" "[]"] by simp
  have h4: "?rc ([Retrieve (strip '' fever? '')] @ [Invoke ?x]) ?x
              = (Inl (OtherException ''rate limit reached''), [])"
    by (simp add: chain_raises_def)
  from generation_failure [OF h1 h2 h3 h4] h2 show ?thesis
    by (simp add: strip_examples)
qed

text \<open>
  C7. If the RAG chain is absent, as it is after a module initialisation whose
  vector-store set-up raised, every chat request, whatever its body, is answered at
  once with the 500 response \<^verbatim>\<open>retrieval chain not initialized\<close>, and no retrieval is
  attempted: the trace is unchanged.
\<close>

theorem uninitialised_always_unavailable:
  "(rag_chain g = None \<longrightarrow>
      chat g get_json tr
        = (Inr (PyDict [(''error'', PyStr ''retrieval chain not initialized'')], 500), tr)
      \<and> main_chat g payload tr
          = (Inl (HTTPException 500 ''Retrieval chain not initialized''), tr))
   \<and> rag_chain (module_init (Inl e) chain) = None"
  by (simp add: chat_def main_chat_def module_init_def error_body_def [symmetric])

theorem uninitialised_always_unavailable_witness:
  "chat (module_init (Inl (OtherException ''index not found'')) (llm_returns (PyStr ''ok'')))
        (Inr (PyDict [(''message'', PyStr ''fever?'')])) []
     = (Inr (PyDict [(''error'', PyStr ''retrieval chain not initialized'')], 500), [])
   \<and> main_chat (module_init (Inl (OtherException ''index not found'')) (llm_returns (PyStr ''ok'')))
        \<lparr>message = ''fever?''\<rparr> []
     = (Inl (HTTPException 500 ''Retrieval chain not initialized''), [])"
  using uninitialised_always_unavailable
          [of "module_init (Inl (OtherException ''index not found'')) (llm_returns (PyStr ''ok''))"
              "Inr (PyDict [(''message'', PyStr ''fever?'')])" "[]" "\<lparr>message = ''fever?''\<rparr>"
              "OtherException ''index not found''" "llm_returns (PyStr ''ok'')"]
  by simp

section \<open>The catch-all of the Flask view\<close>

lemma chat_never_raises: "\<exists>response. fst (chat g get_json tr) = Inr response"
  by (auto simp: chat_def split: option.splits prod.splits sum.splits)

lemma chat_try_parse_error: "chat_try g rc (Inl e) tr = (Inl e, tr)"
  by (simp add: chat_try_def)

lemma chat_try_not_dict:
  assumes "\<forall>kvs. data \<noteq> PyDict kvs"
  shows "chat_try g rc (Inr data) tr = (Inl (no_attribute data ''get''), tr)"
  using assms by (cases data) (simp_all add: chat_try_def get_message_def)

lemma chat_try_not_str:
  assumes "\<forall>s. dict_get kvs ''message'' (PyStr []) \<noteq> PyStr s"
  shows "chat_try g rc (Inr (PyDict kvs)) tr
           = (Inl (no_attribute (dict_get kvs ''message'' (PyStr [])) ''strip''), tr)"
  using assms
  by (cases "dict_get kvs ''message'' (PyStr [])")
     (simp_all add: chat_try_def get_message_def py_strip_def)

lemma main_chat_outcomes:
  "fst (main_chat g p tr) = Inl (HTTPException 500 ''Retrieval chain not initialized'')
   \<or> fst (main_chat g p tr) = Inl (HTTPException 400 ''empty message'')
   \<or> (\<exists>e. fst (main_chat g p tr) = Inl (HTTPException 500 (''retrieval error: '' @ str_exn e)))
   \<or> (\<exists>e. fst (main_chat g p tr)
             = Inl (HTTPException 500 (''chain invocation error: '' @ str_exn e)))
   \<or> (\<exists>a. fst (main_chat g p tr) = Inr (PyDict [(''response'', a)]) \<and> truthy a)"
  by (auto simp: main_chat_def Let_def split: option.splits prod.splits sum.splits)

text \<open>
  C8. Every exception raised in the Flask view outside the retrieval and generation
  steps leaves the body of the outer \<^verbatim>\<open>try\<close> and is answered with status 500 and the
  fixed message \<^verbatim>\<open>internal server error\<close>, which does not depend on the exception: a
  body that is not JSON, a body that is not an object, a message that is not a string,
  an answer that cannot be serialised. The view never raises. The FastAPI handler has
  no such exception to catch: its body is validated before it runs, and it ends with a
  response or with the \<^verbatim>\<open>HTTPException\<close> of one of its four explicit checks.
\<close>

theorem chat_catch_all:
  "(\<exists>response. fst (chat g get_json tr) = Inr response)
   \<and> (\<forall>rc e. rag_chain g = Some rc \<and> fst (chat_try g rc get_json tr) = Inl e \<longrightarrow>
         chat g get_json tr
           = (Inr (PyDict [(''error'', PyStr ''internal server error'')], 500),
              snd (chat_try g rc get_json tr)))
   \<and> (\<forall>rc e. rag_chain g = Some rc \<and> get_json = Inl e \<longrightarrow>
         chat g get_json tr
           = (Inr (PyDict [(''error'', PyStr ''internal server error'')], 500), tr))
   \<and> (\<forall>rc data. rag_chain g = Some rc \<and> get_json = Inr data \<and> (\<forall>kvs. data \<noteq> PyDict kvs) \<longrightarrow>
         chat g get_json tr
           = (Inr (PyDict [(''error'', PyStr ''internal server error'')], 500), tr))
   \<and> (\<forall>rc kvs. rag_chain g = Some rc \<and> get_json = Inr (PyDict kvs)
          \<and> (\<forall>s. dict_get kvs ''message'' (PyStr []) \<noteq> PyStr s) \<longrightarrow>
         chat g get_json tr
           = (Inr (PyDict [(''error'', PyStr ''internal server error'')], 500), tr))
   \<and> (fst (main_chat g p tr) = Inl (HTTPException 500 ''Retrieval chain not initialized'')
      \<or> fst (main_chat g p tr) = Inl (HTTPException 400 ''empty message'')
      \<or> (\<exists>e. fst (main_chat g p tr) = Inl (HTTPException 500 (''retrieval error: '' @ str_exn e)))
      \<or> (\<exists>e. fst (main_chat g p tr)
                = Inl (HTTPException 500 (''chain invocation error: '' @ str_exn e)))
      \<or> (\<exists>a. fst (main_chat g p tr) = Inr (PyDict [(''response'', a)]) \<and> truthy a))"
proof (intro conjI allI impI)
  show "\<exists>response. fst (chat g get_json tr) = Inr response" by (rule chat_never_raises)
next
  fix rc e
  assume "rag_chain g = Some rc \<and> fst (chat_try g rc get_json tr) = Inl e"
  then show "chat g get_json tr
           = (Inr (PyDict [(''error'', PyStr ''internal server error'')], 500),
              snd (chat_try g rc get_json tr))"
    by (cases "chat_try g rc get_json tr") (simp add: chat_def error_body_def [symmetric])
next
  fix rc e
  assume "rag_chain g = Some rc \<and> get_json = Inl e"
  then show "chat g get_json tr
           = (Inr (PyDict [(''error'', PyStr ''internal server error'')], 500), tr)"
    by (simp add: chat_def chat_try_parse_error error_body_def [symmetric])
next
  fix rc data
  assume "rag_chain g = Some rc \<and> get_json = Inr data \<and> (\<forall>kvs. data \<noteq> PyDict kvs)"
  then show "chat g get_json tr
           = (Inr (PyDict [(''error'', PyStr ''internal server error'')], 500), tr)"
    by (simp add: chat_def chat_try_not_dict error_body_def [symmetric])
next
  fix rc kvs
  assume "rag_chain g = Some rc \<and> get_json = Inr (PyDict kvs)
          \<and> (\<forall>s. dict_get kvs ''message'' (PyStr []) \<noteq> PyStr s)"
  then show "chat g get_json tr
           = (Inr (PyDict [(''error'', PyStr ''internal server error'')], 500), tr)"
    by (simp add: chat_def chat_try_not_str error_body_def [symmetric])
next
  show "fst (main_chat g p tr) = Inl (HTTPException 500 ''Retrieval chain not initialized'')
      \<or> fst (main_chat g p tr) = Inl (HTTPException 400 ''empty message'')
      \<or> (\<exists>e. fst (main_chat g p tr) = Inl (HTTPException 500 (''retrieval error: '' @ str_exn e)))
      \<or> (\<exists>e. fst (main_chat g p tr)
                = Inl (HTTPException 500 (''chain invocation error: '' @ str_exn e)))
      \<or> (\<exists>a. fst (main_chat g p tr) = Inr (PyDict [(''response'', a)]) \<and> truthy a)"
    by (rule main_chat_outcomes)
qed

theorem chat_catch_all_witness:
  "chat \<lparr>retriever = Some (retriever_returns [book_page]),
          rag_chain = Some (chain_returns (NonDict ''unused''))\<rparr>
        (Inl (OtherException ''400 Bad Request: Failed to decode JSON object'')) []
     = (Inr (PyDict [(''error'', PyStr ''internal server error'')], 500), [])
   \<and> chat \<lparr>retriever = Some (retriever_returns [book_page]),
            rag_chain = Some (chain_returns (NonDict ''unused''))\<rparr>
        (Inr (PyList [PyStr ''fever?''])) []
     = (Inr (PyDict [(''error'', PyStr ''internal server error'')], 500), [])
   \<and> chat \<lparr>retriever = Some (retriever_returns [book_page]),
            rag_chain = Some (chain_returns (NonDict ''unused''))\<rparr>
        (Inr (PyDict [(''message'', PyInt 5)])) []
     = (Inr (PyDict [(''error'', PyStr ''internal server error'')], 500), [])
   \<and> chat \<lparr>retriever = Some (retriever_returns [book_page]),
            rag_chain = Some (chain_returns (Dict [(''answer'', book_page)]))\<rparr>
        (Inr (PyDict [(''message'', PyStr ''fever?'')])) []
     = (Inr (PyDict [(''error'', PyStr ''internal server error'')], 500),
        [Retrieve ''fever?'', Invoke (PyDict [(''input'', PyStr ''fever?'')])])"
proof -
  let ?g = "\<lparr>retriever = Some (retriever_returns [book_page]),
             rag_chain = Some (chain_returns (NonDict ''unused''))\<rparr>"
  let ?rc = "chain_returns (Dict [(''answer'', book_page)])"
  let ?g' = "\<lparr>retriever = Some (retriever_returns [book_page]), rag_chain = Some ?rc\<rparr>"
  let ?req = "Inr (PyDict [(''message'', PyStr ''fever?'')])"
  have unserialisable:
    "chat_try ?g' ?rc ?req []
       = (Inl (TypeError ''Object of type Document is not JSON serializable''),
          [Retrieve ''fever?'', Invoke (PyDict [(''input'', PyStr ''fever?'')])])"
    by (simp add: chat_try_def get_message_def py_strip_def dict_get_def strip_examples
                  retrieval_step_book_page invoke_def chain_returns_def extract_answer_def
                  py_or_def answer_or_fallback_def json_response_def jsonify_def book_page_facts)
  from chat_catch_all [of ?g "Inl (OtherException ''400 Bad Request: Failed to decode JSON object'')" "[]"]
  have c1: "chat ?g (Inl (OtherException ''400 Bad Request: Failed to decode JSON object'')) []
              = (Inr (PyDict [(''error'', PyStr ''internal server error'')], 500), [])"
    by simp
  from chat_catch_all [of ?g "Inr (PyList [PyStr ''fever?''])" "[]"]
  have c2: "chat ?g (Inr (PyList [PyStr ''fever?''])) []
              = (Inr (PyDict [(''error'', PyStr ''internal server error'')], 500), [])"
    by simp
  from chat_catch_all [of ?g "Inr (PyDict [(''message'', PyInt 5)])" "[]"]
  have c3: "chat ?g (Inr (PyDict [(''message'', PyInt 5)])) []
              = (Inr (PyDict [(''error'', PyStr ''internal server error'')], 500), [])"
    by (simp add: dict_get_def)
  from chat_catch_all [of ?g' ?req "[]"] unserialisable
  have c4: "chat ?g' ?req []
              = (Inr (PyDict [(''error'', PyStr ''internal server error'')], 500),
                 [Retrieve ''fever?'', Invoke (PyDict [(''input'', PyStr ''fever?'')])])"
    by simp
  from c1 c2 c3 c4 show ?thesis by simp
qed

section \<open>The index build of the ingestion script\<close>

lemma map_of_dict_set: "map_of (dict_set k v kvs) = (map_of kvs)(k \<mapsto> v)"
  by (induction kvs) (auto simp: fun_eq_iff)

lemma keys_dict_set_present:
  "k \<in> fst ` set kvs \<Longrightarrow> map fst (dict_set k v kvs) = map fst kvs"
  by (induction kvs) force+

lemma keys_dict_set_absent:
  "k \<notin> fst ` set kvs \<Longrightarrow> map fst (dict_set k v kvs) = map fst kvs @ [k]"
  by (induction kvs) auto

lemma keys_dict_set_subset: "set (map fst kvs) \<subseteq> set (map fst (dict_set k v kvs))"
  by (cases "k \<in> fst ` set kvs") (auto simp: keys_dict_set_present keys_dict_set_absent)

lemma map_of_Some_key: "map_of kvs k = Some v \<Longrightarrow> k \<in> fst ` set kvs"
  by (metis map_of_eq_None_iff option.distinct(1))

lemma keys_upsert_all: "set (map fst vs) \<subseteq> set (map fst (upsert_all documents vs))"
proof (induction documents arbitrary: vs)
  case Nil
  then show ?case by simp
next
  case (Cons d documents)
  obtain vid chunk where d: "d = (vid, chunk)" by (cases d)
  have "set (map fst vs) \<subseteq> set (map fst (dict_set vid chunk vs))"
    by (rule keys_dict_set_subset)
  also have "\<dots> \<subseteq> set (map fst (upsert_all documents (dict_set vid chunk vs)))"
    by (rule Cons.IH)
  finally show ?case by (simp add: d)
qed

lemma build_index_existing:
  "index_name \<in> set (list_index_names pc) \<Longrightarrow> build_index pc = (Inr pc, [skip_message])"
  by (simp add: build_index_def)

lemma build_index_creates:
  "build_index pc = (Inr pc1, out) \<Longrightarrow> index_name \<in> set (list_index_names pc1)"
  by (auto simp: build_index_def create_index_def list_index_names_def split: if_splits)

lemma from_documents_names:
  "from_documents documents name pc = Inr pc1 \<Longrightarrow> list_index_names pc1 = list_index_names pc"
  by (auto simp: from_documents_def list_index_names_def keys_dict_set_present map_of_Some_key
           split: option.splits)

lemma store_creates:
  assumes "store text_chunks pc = (Inr pc1, out)"
  shows "index_name \<in> set (list_index_names pc1)"
proof -
  from assms obtain pc0 where b: "build_index pc = (Inr pc0, out)"
    and f: "from_documents text_chunks index_name pc0 = Inr pc1"
    by (auto simp: store_def split: prod.splits sum.splits)
  from build_index_creates [OF b] from_documents_names [OF f] show ?thesis by simp
qed

lemma store_existing:
  assumes "index_name \<in> set (list_index_names pc)"
  shows "store text_chunks pc = (from_documents text_chunks index_name pc, [skip_message])"
  using build_index_existing [OF assms] by (simp add: store_def)

lemma from_documents_keeps:
  assumes "from_documents documents name pc = Inr pc1" and "map_of pc name = Some idx"
  shows "\<exists>idx1. map_of pc1 name = Some idx1
           \<and> dimension idx1 = dimension idx \<and> metric idx1 = metric idx
           \<and> cloud idx1 = cloud idx \<and> region idx1 = region idx
           \<and> set (map fst (vectors idx)) \<subseteq> set (map fst (vectors idx1))"
  using assms keys_upsert_all [of "vectors idx" documents]
  by (auto simp: from_documents_def map_of_dict_set)

text \<open>
  C9. The index build is idempotent at the level of the index name. When an index named
  \<^verbatim>\<open>medibot\<close> exists, the build step leaves the account as it is and prints that it
  skips the creation, so the script only uploads its chunks; the build step run on its
  own result is that no-op; and after a first run of the script a second run skips the
  creation and keeps the index names, the index's configuration and every vector id
  stored before: nothing is recreated.
\<close>

theorem build_index_idempotent:
  "(index_name \<in> set (list_index_names pc) \<longrightarrow>
      build_index pc = (Inr pc, [skip_message])
      \<and> store chunks2 pc = (from_documents chunks2 index_name pc, [skip_message]))
   \<and> (\<forall>pc1 out. build_index pc = (Inr pc1, out) \<longrightarrow> build_index pc1 = (Inr pc1, [skip_message]))
   \<and> (\<forall>pc1 out. store chunks1 pc = (Inr pc1, out) \<longrightarrow>
         build_index pc1 = (Inr pc1, [skip_message])
         \<and> (\<forall>pc2 out2 idx1.
               store chunks2 pc1 = (Inr pc2, out2) \<and> map_of pc1 index_name = Some idx1 \<longrightarrow>
               list_index_names pc2 = list_index_names pc1
               \<and> (\<exists>idx2. map_of pc2 index_name = Some idx2
                     \<and> dimension idx2 = dimension idx1 \<and> metric idx2 = metric idx1
                     \<and> cloud idx2 = cloud idx1 \<and> region idx2 = region idx1
                     \<and> set (map fst (vectors idx1)) \<subseteq> set (map fst (vectors idx2)))))"
proof (intro conjI allI impI)
  assume "index_name \<in> set (list_index_names pc)"
  then show "build_index pc = (Inr pc, [skip_message])" by (rule build_index_existing)
next
  assume "index_name \<in> set (list_index_names pc)"
  then show "store chunks2 pc = (from_documents chunks2 index_name pc, [skip_message])"
    by (rule store_existing)
next
  fix pc1 out
  assume "build_index pc = (Inr pc1, out)"
  then show "build_index pc1 = (Inr pc1, [skip_message])"
    by (intro build_index_existing build_index_creates)
next
  fix pc1 out
  assume "store chunks1 pc = (Inr pc1, out)"
  then show "build_index pc1 = (Inr pc1, [skip_message])"
    by (intro build_index_existing store_creates)
next
  fix pc1 out pc2 out2 idx1
  assume s1: "store chunks1 pc = (Inr pc1, out)"
    and s2: "store chunks2 pc1 = (Inr pc2, out2) \<and> map_of pc1 index_name = Some idx1"
  from store_creates [OF s1] have ex: "index_name \<in> set (list_index_names pc1)" .
  from s2 store_existing [OF ex, of chunks2]
  have f: "from_documents chunks2 index_name pc1 = Inr pc2" by simp
  from from_documents_names [OF f]
  show "list_index_names pc2 = list_index_names pc1" .
  from from_documents_keeps [OF f] s2
  show "\<exists>idx2. map_of pc2 index_name = Some idx2
                     \<and> dimension idx2 = dimension idx1 \<and> metric idx2 = metric idx1
                     \<and> cloud idx2 = cloud idx1 \<and> region idx2 = region idx1
                     \<and> set (map fst (vectors idx1)) \<subseteq> set (map fst (vectors idx2))"
    by blast
qed

theorem build_index_idempotent_witness:
  "build_index []
     = (Inr [(''medibot'', \<lparr>dimension = 384, metric = ''cosine'', cloud = ''aws'',
                             region = ''us-east-1'', vectors = []\<rparr>)], [])
   \<and> build_index [(''medibot'', \<lparr>dimension = 384, metric = ''cosine'', cloud = ''aws'',
                                  region = ''us-east-1'', vectors = []\<rparr>)]
     = (Inr [(''medibot'', \<lparr>dimension = 384, metric = ''cosine'', cloud = ''aws'',
                             region = ''us-east-1'', vectors = []\<rparr>)], [skip_message])
   \<and> store [(''id-1'', ''Fever is a rise in body temperature.'')] []
     = (Inr [(''medibot'', \<lparr>dimension = 384, metric = ''cosine'', cloud = ''aws'',
                             region = ''us-east-1'',
                             vectors = [(''id-1'', ''Fever is a rise in body temperature.'')]\<rparr>)],
        [])
   \<and> build_index [(''medibot'', \<lparr>dimension = 384, metric = ''cosine'', cloud = ''aws'',
                                  region = ''us-east-1'',
                                  vectors = [(''id-1'', ''Fever is a rise in body temperature.'')]\<rparr>)]
     = (Inr [(''medibot'', \<lparr>dimension = 384, metric = ''cosine'', cloud = ''aws'',
                             region = ''us-east-1'',
                             vectors = [(''id-1'', ''Fever is a rise in body temperature.'')]\<rparr>)],
        [skip_message])
   \<and> store [(''id-2'', ''Paracetamol lowers fever.'')]
        [(''medibot'', \<lparr>dimension = 384, metric = ''cosine'', cloud = ''aws'',
                         region = ''us-east-1'',
                         vectors = [(''id-1'', ''Fever is a rise in body temperature.'')]\<rparr>)]
     = (Inr [(''medibot'', \<lparr>dimension = 384, metric = ''cosine'', cloud = ''aws'',
                             region = ''us-east-1'',
                             vectors = [(''id-1'', ''Fever is a rise in body temperature.''),
                                        (''id-2'', ''Paracetamol lowers fever.'')]\<rparr>)],
        [skip_message])
   \<and> list_index_names
        [(''medibot'', \<lparr>dimension = 384, metric = ''cosine'', cloud = ''aws'',
                         region = ''us-east-1'',
                         vectors = [(''id-1'', ''Fever is a rise in body temperature.''),
                                    (''id-2'', ''Paracetamol lowers fever.'')]\<rparr>)]
     = list_index_names
        [(''medibot'', \<lparr>dimension = 384, metric = ''cosine'', cloud = ''aws'',
                         region = ''us-east-1'',
                         vectors = [(''id-1'', ''Fever is a rise in body temperature.'')]\<rparr>)]"
proof -
  let ?c1 = "[(''id-1'', ''Fever is a rise in body temperature.'')]"
  let ?c2 = "[(''id-2'', ''Paracetamol lowers fever.'')]"
  let ?idx0 = "\<lparr>dimension = 384, metric = ''cosine'', cloud = ''aws'',
                region = ''us-east-1'', vectors = []\<rparr>"
  let ?idx1 = "\<lparr>dimension = 384, metric = ''cosine'', cloud = ''aws'',
                region = ''us-east-1'', vectors = ?c1\<rparr>"
  let ?pc0 = "[(''medibot'', ?idx0)]"
  let ?pc1 = "[(''medibot'', ?idx1)]"
  let ?pc2 = "[(''medibot'', \<lparr>dimension = 384, metric = ''cosine'', cloud = ''aws'',
                               region = ''us-east-1'',
                               vectors = [(''id-1'', ''Fever is a rise in body temperature.''),
                                          (''id-2'', ''Paracetamol lowers fever.'')]\<rparr>)]"
  note on_empty = build_index_idempotent [of "[]" ?c2 ?c1]
  note on_first = build_index_idempotent [of ?pc1 ?c2 ?c1]
  have created: "build_index [] = (Inr ?pc0, [])"
    by (simp add: build_index_def create_index_def list_index_names_def index_name_def)
  from on_empty [THEN conjunct2, THEN conjunct1, rule_format, OF created]
  have skipped: "build_index ?pc0 = (Inr ?pc0, [skip_message])" .
  have first: "store ?c1 [] = (Inr ?pc1, [])"
    by (simp add: store_def created from_documents_def index_name_def)
  from on_empty [THEN conjunct2, THEN conjunct2, rule_format, OF first]
  have again: "build_index ?pc1 = (Inr ?pc1, [skip_message])"
    and kept: "\<And>pc2 out2 idx1.
           store ?c2 ?pc1 = (Inr pc2, out2) \<and> map_of ?pc1 index_name = Some idx1 \<Longrightarrow>
           list_index_names pc2 = list_index_names ?pc1"
    by blast+
  have present: "index_name \<in> set (list_index_names ?pc1)"
    by (simp add: list_index_names_def index_name_def)
  from on_first [THEN conjunct1, rule_format, OF present]
  have "store ?c2 ?pc1 = (from_documents ?c2 index_name ?pc1, [skip_message])" by simp
  then have second: "store ?c2 ?pc1 = (Inr ?pc2, [skip_message])"
    by (simp add: from_documents_def index_name_def)
  have looked_up: "map_of ?pc1 index_name = Some ?idx1" by (simp add: index_name_def)
  from kept [OF conjI [OF second looked_up]]
  have names: "list_index_names ?pc2 = list_index_names ?pc1" .
  from created skipped first again second names show ?thesis by simp
qed

section \<open>Two retrievals per request\<close>

lemma invoke_retrieval_chain:
  "invoke (create_retrieval_chain r c) (PyDict [(''input'', PyStr q)]) tr1 =
     (case r (tr1 @ [Invoke (PyDict [(''input'', PyStr q)])]) q of
        Inl e \<Rightarrow> (Inl e, tr1 @ [Invoke (PyDict [(''input'', PyStr q)]), Retrieve q])
      | Inr docs \<Rightarrow>
          (case c (tr1 @ [Invoke (PyDict [(''input'', PyStr q)]), Retrieve q])
                  (PyDict [(''input'', PyStr q), (''context'', PyList docs)]) of
             Inl e \<Rightarrow>
               (Inl e, tr1 @ [Invoke (PyDict [(''input'', PyStr q)]), Retrieve q,
                              Generate (PyDict [(''input'', PyStr q), (''context'', PyList docs)])])
           | Inr a \<Rightarrow>
               (Inr (Dict [(''input'', PyStr q), (''context'', PyList docs), (''answer'', a)]),
                tr1 @ [Invoke (PyDict [(''input'', PyStr q)]), Retrieve q,
                       Generate (PyDict [(''input'', PyStr q), (''context'', PyList docs)])])))"
  by (simp add: invoke_def create_retrieval_chain_def Let_def split: sum.splits)

lemma extract_retrieval_chain_output:
  "extract_answer (Dict [(''input'', PyStr q), (''context'', PyList docs), (''answer'', a)])
     = (if truthy a then a else PyStr [])"
  by (simp add: extract_answer_def py_or_def dict_get_def)

lemma retrieval_step_Some:
  "retrieval_step (Some r) q tr =
     (case r tr q of
        Inl e \<Rightarrow> (Inl e, tr @ [Retrieve q])
      | Inr docs \<Rightarrow>
          (case sample_titles docs of
             Inl e \<Rightarrow> (Inl e, tr @ [Retrieve q])
           | Inr t \<Rightarrow> (Inr docs, tr @ [Retrieve q])))"
  by (simp add: retrieval_step_def get_relevant_documents_def split: sum.splits)

lemma module_init_ok:
  "rag_chain (module_init (Inr r) c) = Some (create_retrieval_chain r c)"
  "retriever (module_init (Inr r) c) = Some r"
  by (simp_all add: module_init_def)

lemma answer_of_retrieval_chain:
  "answer_or_fallback q
     (extract_answer (Dict [(''input'', PyStr q), (''context'', PyList docs), (''answer'', a)]))
     = (if truthy a then a else PyStr (fallback q))"
  by (simp add: extract_retrieval_chain_output answer_or_fallback_def)

lemma main_chat_retrieval_chain:
  "main_chat (module_init (Inr r) c) \<lparr>message = m\<rparr> tr =
     (if strip m = [] then (Inl (HTTPException 400 ''empty message''), tr)
      else
        (case r tr (strip m) of
           Inl e \<Rightarrow> (Inl (HTTPException 500 (''retrieval error: '' @ str_exn e)),
                      tr @ [Retrieve (strip m)])
         | Inr docs1 \<Rightarrow>
             (case sample_titles docs1 of
                Inl e \<Rightarrow> (Inl (HTTPException 500 (''retrieval error: '' @ str_exn e)),
                           tr @ [Retrieve (strip m)])
              | Inr t \<Rightarrow>
                  (case r (tr @ [Retrieve (strip m), Invoke (PyDict [(''input'', PyStr (strip m))])])
                          (strip m) of
                     Inl e \<Rightarrow>
                       (Inl (HTTPException 500 (''chain invocation error: '' @ str_exn e)),
                        tr @ [Retrieve (strip m), Invoke (PyDict [(''input'', PyStr (strip m))]),
                              Retrieve (strip m)])
                   | Inr docs2 \<Rightarrow>
                       (case c (tr @ [Retrieve (strip m),
                                      Invoke (PyDict [(''input'', PyStr (strip m))]),
                                      Retrieve (strip m)])
                               (PyDict [(''input'', PyStr (strip m)), (''context'', PyList docs2)]) of
                          Inl e \<Rightarrow>
                            (Inl (HTTPException 500 (''chain invocation error: '' @ str_exn e)),
                             tr @ [Retrieve (strip m),
                                   Invoke (PyDict [(''input'', PyStr (strip m))]),
                                   Retrieve (strip m),
                                   Generate (PyDict [(''input'', PyStr (strip m)),
                                                     (''context'', PyList docs2)])])
                        | Inr a \<Rightarrow>
                            (Inr (PyDict [(''response'',
                                           if truthy a then a else PyStr (fallback (strip m)))]),
                             tr @ [Retrieve (strip m),
                                   Invoke (PyDict [(''input'', PyStr (strip m))]),
                                   Retrieve (strip m),
                                   Generate (PyDict [(''input'', PyStr (strip m)),
                                                     (''context'', PyList docs2)])]))))))"
  by (simp add: main_chat_initialised [OF module_init_ok(1)] module_init_ok(2)
                retrieval_step_Some invoke_retrieval_chain answer_of_retrieval_chain
           split: sum.splits)

lemma chat_retrieval_chain:
  assumes "map_of kvs ''message'' = Some (PyStr m)"
  shows "chat (module_init (Inr r) c) (Inr (PyDict kvs)) tr =
     (if strip m = [] then (Inr (error_body ''empty message'', 400), tr)
      else
        (case r tr (strip m) of
           Inl e \<Rightarrow> (Inr (error_body (''retrieval error: '' @ str_exn e), 500),
                      tr @ [Retrieve (strip m)])
         | Inr docs1 \<Rightarrow>
             (case sample_titles docs1 of
                Inl e \<Rightarrow> (Inr (error_body (''retrieval error: '' @ str_exn e), 500),
                           tr @ [Retrieve (strip m)])
              | Inr t \<Rightarrow>
                  (case r (tr @ [Retrieve (strip m), Invoke (PyDict [(''input'', PyStr (strip m))])])
                          (strip m) of
                     Inl e \<Rightarrow>
                       (Inr (error_body (''chain invocation error: '' @ str_exn e), 500),
                        tr @ [Retrieve (strip m), Invoke (PyDict [(''input'', PyStr (strip m))]),
                              Retrieve (strip m)])
                   | Inr docs2 \<Rightarrow>
                       (case c (tr @ [Retrieve (strip m),
                                      Invoke (PyDict [(''input'', PyStr (strip m))]),
                                      Retrieve (strip m)])
                               (PyDict [(''input'', PyStr (strip m)), (''context'', PyList docs2)]) of
                          Inl e \<Rightarrow>
                            (Inr (error_body (''chain invocation error: '' @ str_exn e), 500),
                             tr @ [Retrieve (strip m),
                                   Invoke (PyDict [(''input'', PyStr (strip m))]),
                                   Retrieve (strip m),
                                   Generate (PyDict [(''input'', PyStr (strip m)),
                                                     (''context'', PyList docs2)])])
                        | Inr a \<Rightarrow>
                            (if json_serializable (if truthy a then a else PyStr (fallback (strip m)))
                             then Inr (PyDict [(''response'',
                                         if truthy a then a else PyStr (fallback (strip m)))], 200)
                             else Inr (error_body ''internal server error'', 500),
                             tr @ [Retrieve (strip m),
                                   Invoke (PyDict [(''input'', PyStr (strip m))]),
                                   Retrieve (strip m),
                                   Generate (PyDict [(''input'', PyStr (strip m)),
                                                     (''context'', PyList docs2)])]))))))"
  by (simp add: chat_str_message [OF module_init_ok(1) dict_get_present [OF assms]]
                module_init_ok(2) retrieval_step_Some invoke_retrieval_chain
                answer_of_retrieval_chain Let_def
           split: sum.splits)

lemma main_chat_success:
  assumes ok: "main_chat (module_init (Inr r) c) \<lparr>message = m\<rparr> tr = (Inr body, tr')"
  shows "\<exists>docs1 t docs2 a.
           strip m \<noteq> []
         \<and> r tr (strip m) = Inr docs1
         \<and> sample_titles docs1 = Inr t
         \<and> r (tr @ [Retrieve (strip m), Invoke (PyDict [(''input'', PyStr (strip m))])]) (strip m)
             = Inr docs2
         \<and> c (tr @ [Retrieve (strip m), Invoke (PyDict [(''input'', PyStr (strip m))]),
                     Retrieve (strip m)])
              (PyDict [(''input'', PyStr (strip m)), (''context'', PyList docs2)]) = Inr a
         \<and> tr' = tr @ [Retrieve (strip m), Invoke (PyDict [(''input'', PyStr (strip m))]),
                         Retrieve (strip m),
                         Generate (PyDict [(''input'', PyStr (strip m)),
                                           (''context'', PyList docs2)])]
         \<and> body = PyDict [(''response'', if truthy a then a else PyStr (fallback (strip m)))]"
proof -
  let ?q = "strip m"
  let ?x = "PyDict [(''input'', PyStr ?q)]"
  note unfolded = ok [unfolded main_chat_retrieval_chain]
  from unfolded have ne: "?q \<noteq> []" by (cases "?q = []") simp_all
  from unfolded ne obtain docs1 where d1: "r tr ?q = Inr docs1"
    by (cases "r tr ?q") simp_all
  from unfolded ne d1 obtain t where t: "sample_titles docs1 = Inr t"
    by (cases "sample_titles docs1") simp_all
  from unfolded ne d1 t obtain docs2 where d2: "r (tr @ [Retrieve ?q, Invoke ?x]) ?q = Inr docs2"
    by (cases "r (tr @ [Retrieve ?q, Invoke ?x]) ?q") simp_all
  from unfolded ne d1 t d2 obtain a
    where a: "c (tr @ [Retrieve ?q, Invoke ?x, Retrieve ?q])
                (PyDict [(''input'', PyStr ?q), (''context'', PyList docs2)]) = Inr a"
    by (cases "c (tr @ [Retrieve ?q, Invoke ?x, Retrieve ?q])
                (PyDict [(''input'', PyStr ?q), (''context'', PyList docs2)])") simp_all
  from unfolded ne d1 t d2 a
  have "tr' = tr @ [Retrieve ?q, Invoke ?x, Retrieve ?q,
                    Generate (PyDict [(''input'', PyStr ?q), (''context'', PyList docs2)])]"
    and "body = PyDict [(''response'', if truthy a then a else PyStr (fallback ?q))]"
    by simp_all
  with ne d1 t d2 a show ?thesis by blast
qed

lemma main_chat_completes:
  assumes "strip m \<noteq> []"
    and "r tr (strip m) = Inr docs1"
    and "sample_titles docs1 = Inr t"
    and "r (tr @ [Retrieve (strip m), Invoke (PyDict [(''input'', PyStr (strip m))])]) (strip m)
           = Inr docs2"
    and "c (tr @ [Retrieve (strip m), Invoke (PyDict [(''input'', PyStr (strip m))]),
                  Retrieve (strip m)])
           (PyDict [(''input'', PyStr (strip m)), (''context'', PyList docs2)]) = Inr a"
  shows "main_chat (module_init (Inr r) c) \<lparr>message = m\<rparr> tr
           = (Inr (PyDict [(''response'', if truthy a then a else PyStr (fallback (strip m)))]),
              tr @ [Retrieve (strip m), Invoke (PyDict [(''input'', PyStr (strip m))]),
                    Retrieve (strip m),
                    Generate (PyDict [(''input'', PyStr (strip m)),
                                      (''context'', PyList docs2)])])"
  using assms by (simp add: main_chat_retrieval_chain)

lemma chat_success:
  assumes msg: "map_of kvs ''message'' = Some (PyStr m)"
    and ok: "chat (module_init (Inr r) c) (Inr (PyDict kvs)) tr = (Inr (body, 200), tr')"
  shows "\<exists>docs1 t docs2 a.
           strip m \<noteq> []
         \<and> r tr (strip m) = Inr docs1
         \<and> sample_titles docs1 = Inr t
         \<and> r (tr @ [Retrieve (strip m), Invoke (PyDict [(''input'', PyStr (strip m))])]) (strip m)
             = Inr docs2
         \<and> c (tr @ [Retrieve (strip m), Invoke (PyDict [(''input'', PyStr (strip m))]),
                     Retrieve (strip m)])
              (PyDict [(''input'', PyStr (strip m)), (''context'', PyList docs2)]) = Inr a
         \<and> json_serializable (if truthy a then a else PyStr (fallback (strip m)))
         \<and> tr' = tr @ [Retrieve (strip m), Invoke (PyDict [(''input'', PyStr (strip m))]),
                         Retrieve (strip m),
                         Generate (PyDict [(''input'', PyStr (strip m)),
                                           (''context'', PyList docs2)])]
         \<and> body = PyDict [(''response'', if truthy a then a else PyStr (fallback (strip m)))]"
proof -
  let ?q = "strip m"
  let ?x = "PyDict [(''input'', PyStr ?q)]"
  note unfolded = ok [unfolded chat_retrieval_chain [OF msg]]
  from unfolded have ne: "?q \<noteq> []" by (cases "?q = []") simp_all
  from unfolded ne obtain docs1 where d1: "r tr ?q = Inr docs1"
    by (cases "r tr ?q") simp_all
  from unfolded ne d1 obtain t where t: "sample_titles docs1 = Inr t"
    by (cases "sample_titles docs1") simp_all
  from unfolded ne d1 t obtain docs2 where d2: "r (tr @ [Retrieve ?q, Invoke ?x]) ?q = Inr docs2"
    by (cases "r (tr @ [Retrieve ?q, Invoke ?x]) ?q") simp_all
  from unfolded ne d1 t d2 obtain a
    where a: "c (tr @ [Retrieve ?q, Invoke ?x, Retrieve ?q])
                (PyDict [(''input'', PyStr ?q), (''context'', PyList docs2)]) = Inr a"
    by (cases "c (tr @ [Retrieve ?q, Invoke ?x, Retrieve ?q])
                (PyDict [(''input'', PyStr ?q), (''context'', PyList docs2)])") simp_all
  let ?a = "if truthy a then a else PyStr (fallback ?q)"
  from unfolded ne d1 t d2 a have js: "json_serializable ?a"
    by (cases "json_serializable ?a") simp_all
  from unfolded ne d1 t d2 a js
  have "tr' = tr @ [Retrieve ?q, Invoke ?x, Retrieve ?q,
                    Generate (PyDict [(''input'', PyStr ?q), (''context'', PyList docs2)])]"
    and "body = PyDict [(''response'', ?a)]"
    by simp_all
  with ne d1 t d2 a js show ?thesis by blast
qed

lemma chat_completes:
  assumes "map_of kvs ''message'' = Some (PyStr m)"
    and "strip m \<noteq> []"
    and "r tr (strip m) = Inr docs1"
    and "sample_titles docs1 = Inr t"
    and "r (tr @ [Retrieve (strip m), Invoke (PyDict [(''input'', PyStr (strip m))])]) (strip m)
           = Inr docs2"
    and "c (tr @ [Retrieve (strip m), Invoke (PyDict [(''input'', PyStr (strip m))]),
                  Retrieve (strip m)])
           (PyDict [(''input'', PyStr (strip m)), (''context'', PyList docs2)]) = Inr a"
    and "json_serializable (if truthy a then a else PyStr (fallback (strip m)))"
  shows "chat (module_init (Inr r) c) (Inr (PyDict kvs)) tr
           = (Inr (PyDict [(''response'', if truthy a then a else PyStr (fallback (strip m)))], 200),
              tr @ [Retrieve (strip m), Invoke (PyDict [(''input'', PyStr (strip m))]),
                    Retrieve (strip m),
                    Generate (PyDict [(''input'', PyStr (strip m)),
                                      (''context'', PyList docs2)])])"
  using assms(2-) by (simp add: chat_retrieval_chain [OF assms(1)])

text \<open>
  On the RAG chain built at module initialisation, a chat request that completes
  successfully has called the retriever twice with the same trimmed message, once in
  the handler and once inside the chain invocation; the combine-documents chain has been
  called with the documents of the second call as its context, and the response is its
  answer (or the fallback). Replacing the documents of the first call by any documents
  for which the debug line can be built leaves the response and the trace as they are.
\<close>

lemma two_retrievals_when_debug_line_builds:
  assumes q: "user_message = strip m"
    and x: "x = PyDict [(''input'', PyStr user_message)]"
  shows
   "(\<forall>body tr'.
       main_chat (module_init (Inr r) c) \<lparr>message = m\<rparr> tr = (Inr body, tr') \<longrightarrow>
       (\<exists>docs1 docs2 a.
           r tr user_message = Inr docs1
         \<and> r (tr @ [Retrieve user_message, Invoke x]) user_message = Inr docs2
         \<and> c (tr @ [Retrieve user_message, Invoke x, Retrieve user_message])
              (PyDict [(''input'', PyStr user_message), (''context'', PyList docs2)]) = Inr a
         \<and> tr' = tr @ [Retrieve user_message, Invoke x, Retrieve user_message,
                         Generate (PyDict [(''input'', PyStr user_message),
                                           (''context'', PyList docs2)])]
         \<and> body = PyDict [(''response'', if truthy a then a else PyStr (fallback user_message))]
         \<and> (\<forall>docs1' t. sample_titles docs1' = Inr t \<longrightarrow>
               main_chat (module_init (Inr (r(tr := (r tr)(user_message := Inr docs1')))) c)
                 \<lparr>message = m\<rparr> tr = (Inr body, tr'))))
    \<and> (\<forall>kvs body tr'.
       map_of kvs ''message'' = Some (PyStr m)
       \<and> chat (module_init (Inr r) c) (Inr (PyDict kvs)) tr = (Inr (body, 200), tr') \<longrightarrow>
       (\<exists>docs1 docs2 a.
           r tr user_message = Inr docs1
         \<and> r (tr @ [Retrieve user_message, Invoke x]) user_message = Inr docs2
         \<and> c (tr @ [Retrieve user_message, Invoke x, Retrieve user_message])
              (PyDict [(''input'', PyStr user_message), (''context'', PyList docs2)]) = Inr a
         \<and> tr' = tr @ [Retrieve user_message, Invoke x, Retrieve user_message,
                         Generate (PyDict [(''input'', PyStr user_message),
                                           (''context'', PyList docs2)])]
         \<and> body = PyDict [(''response'', if truthy a then a else PyStr (fallback user_message))]
         \<and> (\<forall>docs1' t. sample_titles docs1' = Inr t \<longrightarrow>
               chat (module_init (Inr (r(tr := (r tr)(user_message := Inr docs1')))) c)
                 (Inr (PyDict kvs)) tr = (Inr (body, 200), tr'))))"
proof (intro conjI allI impI)
  fix body tr'
  assume ok: "main_chat (module_init (Inr r) c) \<lparr>message = m\<rparr> tr = (Inr body, tr')"
  from main_chat_success [OF ok] obtain docs1 t docs2 a where
        ne: "strip m \<noteq> []"
    and d1: "r tr (strip m) = Inr docs1"
    and d2: "r (tr @ [Retrieve (strip m), Invoke (PyDict [(''input'', PyStr (strip m))])]) (strip m)
               = Inr docs2"
    and a: "c (tr @ [Retrieve (strip m), Invoke (PyDict [(''input'', PyStr (strip m))]),
                     Retrieve (strip m)])
              (PyDict [(''input'', PyStr (strip m)), (''context'', PyList docs2)]) = Inr a"
    and tr': "tr' = tr @ [Retrieve (strip m), Invoke (PyDict [(''input'', PyStr (strip m))]),
                          Retrieve (strip m),
                          Generate (PyDict [(''input'', PyStr (strip m)),
                                            (''context'', PyList docs2)])]"
    and body: "body = PyDict [(''response'', if truthy a then a else PyStr (fallback (strip m)))]"
    by blast
  have indep: "main_chat (module_init (Inr (r(tr := (r tr)(strip m := Inr docs1')))) c)
                 \<lparr>message = m\<rparr> tr = (Inr body, tr')"
    if "sample_titles docs1' = Inr t'" for docs1' t'
    unfolding tr' body
    by (rule main_chat_completes [OF ne _ that]) (simp_all add: d2 a)
  from d1 d2 a tr' body indep
  show "\<exists>docs1 docs2 a.
           r tr user_message = Inr docs1
         \<and> r (tr @ [Retrieve user_message, Invoke x]) user_message = Inr docs2
         \<and> c (tr @ [Retrieve user_message, Invoke x, Retrieve user_message])
              (PyDict [(''input'', PyStr user_message), (''context'', PyList docs2)]) = Inr a
         \<and> tr' = tr @ [Retrieve user_message, Invoke x, Retrieve user_message,
                         Generate (PyDict [(''input'', PyStr user_message),
                                           (''context'', PyList docs2)])]
         \<and> body = PyDict [(''response'', if truthy a then a else PyStr (fallback user_message))]
         \<and> (\<forall>docs1' t. sample_titles docs1' = Inr t \<longrightarrow>
               main_chat (module_init (Inr (r(tr := (r tr)(user_message := Inr docs1')))) c)
                 \<lparr>message = m\<rparr> tr = (Inr body, tr'))"
    unfolding q x by blast
next
  fix kvs body tr'
  assume "map_of kvs ''message'' = Some (PyStr m)
       \<and> chat (module_init (Inr r) c) (Inr (PyDict kvs)) tr = (Inr (body, 200), tr')"
  then have msg: "map_of kvs ''message'' = Some (PyStr m)"
    and ok: "chat (module_init (Inr r) c) (Inr (PyDict kvs)) tr = (Inr (body, 200), tr')"
    by simp_all
  from chat_success [OF msg ok] obtain docs1 t docs2 a where
        ne: "strip m \<noteq> []"
    and d1: "r tr (strip m) = Inr docs1"
    and d2: "r (tr @ [Retrieve (strip m), Invoke (PyDict [(''input'', PyStr (strip m))])]) (strip m)
               = Inr docs2"
    and a: "c (tr @ [Retrieve (strip m), Invoke (PyDict [(''input'', PyStr (strip m))]),
                     Retrieve (strip m)])
              (PyDict [(''input'', PyStr (strip m)), (''context'', PyList docs2)]) = Inr a"
    and js: "json_serializable (if truthy a then a else PyStr (fallback (strip m)))"
    and tr': "tr' = tr @ [Retrieve (strip m), Invoke (PyDict [(''input'', PyStr (strip m))]),
                          Retrieve (strip m),
                          Generate (PyDict [(''input'', PyStr (strip m)),
                                            (''context'', PyList docs2)])]"
    and body: "body = PyDict [(''response'', if truthy a then a else PyStr (fallback (strip m)))]"
    by blast
  have indep: "chat (module_init (Inr (r(tr := (r tr)(strip m := Inr docs1')))) c)
                 (Inr (PyDict kvs)) tr = (Inr (body, 200), tr')"
    if "sample_titles docs1' = Inr t'" for docs1' t'
    unfolding tr' body
    by (rule chat_completes [OF msg ne _ that _ _ js]) (simp_all add: d2 a)
  from d1 d2 a tr' body indep
  show "\<exists>docs1 docs2 a.
           r tr user_message = Inr docs1
         \<and> r (tr @ [Retrieve user_message, Invoke x]) user_message = Inr docs2
         \<and> c (tr @ [Retrieve user_message, Invoke x, Retrieve user_message])
              (PyDict [(''input'', PyStr user_message), (''context'', PyList docs2)]) = Inr a
         \<and> tr' = tr @ [Retrieve user_message, Invoke x, Retrieve user_message,
                         Generate (PyDict [(''input'', PyStr user_message),
                                           (''context'', PyList docs2)])]
         \<and> body = PyDict [(''response'', if truthy a then a else PyStr (fallback user_message))]
         \<and> (\<forall>docs1' t. sample_titles docs1' = Inr t \<longrightarrow>
               chat (module_init (Inr (r(tr := (r tr)(user_message := Inr docs1')))) c)
                 (Inr (PyDict kvs)) tr = (Inr (body, 200), tr'))"
    unfolding q x by blast
qed

subsection \<open>The debug line can fail the request\<close>





end
